theory Spec2Isabelle
  imports Main
begin

section \<open>The credential store of aplicacion_item3.py\<close>

text \<open>
  The program keeps its users in one SQLite table,
  \<^verbatim>\<open>users(id INTEGER PRIMARY KEY AUTOINCREMENT, username TEXT UNIQUE NOT NULL,
  password_hash TEXT NOT NULL)\<close>, and reaches it through four functions:
  \<^verbatim>\<open>init_db\<close>, \<^verbatim>\<open>get_password_hash\<close>, \<^verbatim>\<open>add_user\<close> and \<^verbatim>\<open>validate_user\<close>.
  Two front ends call them: the Flask views \<^verbatim>\<open>register\<close> and \<^verbatim>\<open>login\<close>, and the
  command line block under \<^verbatim>\<open>if __name__ == "__main__"\<close>.

  Conventions of the model.
  \<^item> A Python string is a \<^typ>\<open>string\<close>; a character stands for a code point below 256.
  \<^item> The database file is a value of type \<open>database\<close>: \<open>None\<close> when the table
    \<^verbatim>\<open>users\<close> does not exist yet, \<open>Some t\<close> when it does. Every function that touches
    the file takes the database and, when it may write, returns the database it leaves.
  \<^item> An exception is the \<open>Inl\<close> branch of a sum; the database returned beside it is
    what the failed statement left behind.
  \<^item> The library functions \<^verbatim>\<open>generate_password_hash\<close> and \<^verbatim>\<open>check_password_hash\<close>
    (werkzeug.security) are not code of the program: they are parameters, bundled in the
    record \<open>werkzeug\<close>. The random salt drawn by \<^verbatim>\<open>generate_password_hash\<close> is an explicit
    argument of type \<open>'r\<close>.
  \<^item> Row ids are natural numbers; the 63-bit limit of SQLite's rowid is not modelled.
\<close>

subsection \<open>Rows, table, errors\<close>

record user_row =
  row_id :: nat
  row_username :: string
  row_password_hash :: string

text \<open>
  \<open>seq\<close> is the entry of \<^verbatim>\<open>sqlite_sequence\<close> that AUTOINCREMENT maintains: the largest
  id handed out so far.
\<close>

record users_table =
  rows :: "user_row list"
  seq :: nat

type_synonym database = "users_table option"

datatype error =
    IntegrityError      \<comment> \<open>sqlite3.IntegrityError: UNIQUE constraint failed: users.username\<close>
  | OperationalError    \<comment> \<open>sqlite3.OperationalError: no such table: users\<close>
  | IndexError          \<comment> \<open>list index out of range, from \<^verbatim>\<open>os.sys.argv[i]\<close>\<close>

record 'r werkzeug =
  generate_password_hash :: "'r \<Rightarrow> string \<Rightarrow> string"
  check_password_hash :: "string \<Rightarrow> string \<Rightarrow> bool"

subsection \<open>Database functions\<close>

text \<open>
  \<^verbatim>\<open>CREATE TABLE IF NOT EXISTS users (...)\<close>: creates the empty table when it is absent and
  does nothing otherwise.
\<close>

definition init_db :: "database \<Rightarrow> (error + unit) \<times> database" where
  "init_db db =
     (case db of
        None \<Rightarrow> (Inr (), Some \<lparr>rows = [], seq = 0\<rparr>)
      | Some t \<Rightarrow> (Inr (), Some t))"

text \<open>
  \<^verbatim>\<open>SELECT password_hash FROM users WHERE username = ?\<close> followed by \<^verbatim>\<open>fetchone()\<close>;
  the column has the default BINARY collation, so \<open>=\<close> is equality of strings.
\<close>

definition get_password_hash :: "string \<Rightarrow> database \<Rightarrow> error + string option" where
  "get_password_hash username db =
     (case db of
        None \<Rightarrow> Inl OperationalError
      | Some t \<Rightarrow>
          Inr (case find (\<lambda>row. row_username row = username) (rows t) of
                 None \<Rightarrow> None
               | Some row \<Rightarrow> Some (row_password_hash row)))"

text \<open>The id AUTOINCREMENT gives the next row: one more than every id used so far.\<close>

definition next_id :: "users_table \<Rightarrow> nat" where
  "next_id t = Suc (fold max (map row_id (rows t)) (seq t))"

text \<open>
  The hash is computed first; then \<^verbatim>\<open>INSERT INTO users(username, password_hash)\<close> runs.
  A missing table or a username that is already there makes the statement fail, and a
  failed statement writes nothing.
\<close>

definition add_user ::
  "'r werkzeug \<Rightarrow> 'r \<Rightarrow> string \<Rightarrow> string \<Rightarrow> database \<Rightarrow> (error + unit) \<times> database" where
  "add_user W r username password db =
     (let pw_hash = generate_password_hash W r password in
      case db of
        None \<Rightarrow> (Inl OperationalError, db)
      | Some t \<Rightarrow>
          if username \<in> set (map row_username (rows t)) then (Inl IntegrityError, db)
          else (Inr (),
                Some (t\<lparr>rows := rows t @
                            [\<lparr>row_id = next_id t, row_username = username,
                              row_password_hash = pw_hash\<rparr>],
                        seq := next_id t\<rparr>)))"

text \<open>
  \<^verbatim>\<open>validate_user\<close> returns early when the lookup gives \<^verbatim>\<open>None\<close> or an empty string
  (\<^verbatim>\<open>if not pw_hash\<close>), and otherwise asks \<^verbatim>\<open>check_password_hash\<close>. The second
  component of the result lists the calls of \<^verbatim>\<open>check_password_hash\<close> made on the way,
  as pairs (stored hash, password).
\<close>

definition validate_user ::
  "'r werkzeug \<Rightarrow> string \<Rightarrow> string \<Rightarrow> database \<Rightarrow> (error + bool) \<times> (string \<times> string) list" where
  "validate_user W username password db =
     (case get_password_hash username db of
        Inl e \<Rightarrow> (Inl e, [])
      | Inr pw_hash \<Rightarrow>
          (case pw_hash of
             None \<Rightarrow> (Inr False, [])
           | Some h \<Rightarrow>
               if h = [] then (Inr False, [])
               else (Inr (check_password_hash W h password), [(h, password)])))"

text \<open>
  The rows a username has in the table (\<^verbatim>\<open>SELECT * FROM users WHERE username = ?\<close>); the
  program never runs this query, the theorems use it to count rows.
\<close>

definition rows_for :: "string \<Rightarrow> database \<Rightarrow> user_row list" where
  "rows_for username db =
     (case db of
        None \<Rightarrow> []
      | Some t \<Rightarrow> filter (\<lambda>row. row_username row = username) (rows t))"

subsection \<open>What is asked of the hashing library\<close>

text \<open>
  The two library functions are parameters, so what a theorem needs from them is a
  hypothesis of that theorem. \<open>verifies_own_hash\<close>: a generated hash is a non-empty
  string and verifies against the password it was generated from.
  \<open>rejects_other_passwords\<close>: a generated hash verifies against no other password (the
  library is taken to be free of collisions).
\<close>

definition verifies_own_hash :: "'r werkzeug \<Rightarrow> bool" where
  "verifies_own_hash W \<longleftrightarrow>
     (\<forall>r p. generate_password_hash W r p \<noteq> [] \<and>
            check_password_hash W (generate_password_hash W r p) p)"

definition rejects_other_passwords :: "'r werkzeug \<Rightarrow> bool" where
  "rejects_other_passwords W \<longleftrightarrow>
     (\<forall>r p p'. check_password_hash W (generate_password_hash W r p) p' \<longrightarrow> p' = p)"

text \<open>
  A small stand-in for the library, used where a theorem is applied to concrete inputs:
  the salt is a number \<open>n\<close>, the hash of \<open>p\<close> is \<open>n\<close> letters \<open>s\<close>, a dollar sign and
  \<open>p\<close> itself, and verification strips the salt and compares.
\<close>

definition sample_hasher :: "nat werkzeug" where
  "sample_hasher =
     \<lparr>generate_password_hash = (\<lambda>n password. replicate n (CHR ''s'') @ ''$'' @ password),
      check_password_hash =
        (\<lambda>pwhash password. dropWhile (\<lambda>c. c = CHR ''s'') pwhash = ''$'' @ password)\<rparr>"

subsection \<open>The web views\<close>

datatype http_method = GET | POST

text \<open>
  What a view returns: one of the four templates, filled in (\<open>msg\<close> for the two forms,
  \<open>user\<close> for the success page), or the redirect to the home page.
\<close>

datatype response =
    HOME_HTML
  | REGISTER_HTML string
  | LOGIN_HTML string
  | OK_HTML string
  | Redirect_home

text \<open>\<^verbatim>\<open>str.isspace\<close> on the code points below 256, and \<^verbatim>\<open>str.strip()\<close>.\<close>

definition isspace :: "char \<Rightarrow> bool" where
  "isspace c \<longleftrightarrow>
     c \<in> set [CHR 0x09, CHR 0x0A, CHR 0x0B, CHR 0x0C, CHR 0x0D, CHR 0x1C, CHR 0x1D,
               CHR 0x1E, CHR 0x1F, CHR 0x20, CHR 0x85, CHR 0xA0]"

definition strip :: "string \<Rightarrow> string" where
  "strip s = rev (dropWhile isspace (rev (dropWhile isspace s)))"

text \<open>\<^verbatim>\<open>request.form.get(key, "")\<close>\<close>

definition form_get :: "(string \<rightharpoonup> string) \<Rightarrow> string \<Rightarrow> string" where
  "form_get form key = (case form key of None \<Rightarrow> [] | Some v \<Rightarrow> v)"

text \<open>The messages of the views; the accented letters are written by their code points.\<close>

definition msg_invalid :: string where
  "msg_invalid = ''Datos inv'' @ [CHR 0xE1] @ ''lidos.''"

definition msg_exists :: string where
  "msg_exists = ''El usuario ya existe.''"

definition msg_wrong :: string where
  "msg_wrong = ''Usuario o contrase'' @ [CHR 0xF1] @ ''a incorrectos.''"

text \<open>
  The view \<^verbatim>\<open>register\<close>. Only \<^verbatim>\<open>sqlite3.IntegrityError\<close> is caught; any other exception
  of \<^verbatim>\<open>add_user\<close> leaves the view.
\<close>

definition register ::
  "'r werkzeug \<Rightarrow> 'r \<Rightarrow> http_method \<Rightarrow> (string \<rightharpoonup> string) \<Rightarrow> database
     \<Rightarrow> (error + response) \<times> database" where
  "register W r method form db =
     (if method = POST then
        (let u = strip (form_get form ''username'');
             p = strip (form_get form ''password'')
         in if u = [] \<or> p = [] then (Inr (REGISTER_HTML msg_invalid), db)
            else
              (case add_user W r u p db of
                 (Inr _, db') \<Rightarrow> (Inr Redirect_home, db')
               | (Inl e, db') \<Rightarrow>
                   if e = IntegrityError then (Inr (REGISTER_HTML msg_exists), db')
                   else (Inl e, db')))
      else (Inr (REGISTER_HTML []), db))"

definition login ::
  "'r werkzeug \<Rightarrow> http_method \<Rightarrow> (string \<rightharpoonup> string) \<Rightarrow> database \<Rightarrow> error + response" where
  "login W method form db =
     (if method = POST then
        (let u = strip (form_get form ''username'');
             p = strip (form_get form ''password'')
         in case fst (validate_user W u p db) of
              Inl e \<Rightarrow> Inl e
            | Inr ok \<Rightarrow> if ok then Inr (OK_HTML u) else Inr (LOGIN_HTML msg_wrong))
      else Inr (LOGIN_HTML []))"

subsection \<open>The command line\<close>

text \<open>
  One run of the script: the exit status of the process, the lines printed, the exception
  that ended it (if one did; the status is then 1), the calls it made to the store and to
  the web server, in order, and the database it left.
\<close>

datatype store_call =
    Call_init_db
  | Call_add_user string string
  | Call_validate_user string string
  | Call_app_run

record cli_result =
  exit_status :: nat
  stdout :: "string list"
  uncaught :: "error option"
  calls :: "store_call list"
  final_db :: database

definition exited :: "string list \<Rightarrow> store_call list \<Rightarrow> database \<Rightarrow> cli_result" where
  "exited out cs db =
     \<lparr>exit_status = 0, stdout = out, uncaught = None, calls = cs, final_db = db\<rparr>"

definition crashed :: "error \<Rightarrow> string list \<Rightarrow> store_call list \<Rightarrow> database \<Rightarrow> cli_result" where
  "crashed e out cs db =
     \<lparr>exit_status = 1, stdout = out, uncaught = Some e, calls = cs, final_db = db\<rparr>"

text \<open>\<^verbatim>\<open>str.lower()\<close> on the code points below 256.\<close>

definition lower_char :: "char \<Rightarrow> char" where
  "lower_char c =
     (let n = (of_char c :: nat)
      in if (65 \<le> n \<and> n \<le> 90) \<or> (192 \<le> n \<and> n \<le> 222 \<and> n \<noteq> 215)
         then char_of (n + 32) else c)"

definition lower :: "string \<Rightarrow> string" where
  "lower s = map lower_char s"

definition usage :: "string list" where
  "usage =
     [''Uso del programa:'',
      ''  python3 aplicacion_item_3.py init-db'',
      ''  python3 aplicacion_item_3.py add-user Gabriel_Badilla Clave123'',
      ''  python3 aplicacion_item_3.py validate Gabriel_Badilla Clave123'',
      ''  python3 aplicacion_item_3.py run'']"

definition msg_valid :: string where
  "msg_valid = ''Credenciales v'' @ [CHR 0xE1] @ ''lidas''"

definition msg_not_valid :: string where
  "msg_not_valid = ''Credenciales inv'' @ [CHR 0xE1] @ ''lidas''"

definition msg_server :: string where
  "msg_server = ''Servidor ejecut'' @ [CHR 0xE1] @ ''ndose en http://localhost:5800''"

text \<open>
  The block under \<^verbatim>\<open>if __name__ == "__main__"\<close>, with \<open>argv\<close> for \<^verbatim>\<open>os.sys.argv\<close>.
  \<^verbatim>\<open>init_db()\<close> is its first statement. Nothing in the block catches an exception, so an
  exception of \<^verbatim>\<open>os.sys.argv[2]\<close>, \<^verbatim>\<open>os.sys.argv[3]\<close>, \<^verbatim>\<open>add_user\<close> or
  \<^verbatim>\<open>validate_user\<close> ends the process. \<^verbatim>\<open>app.run\<close> is taken to return when the server is
  stopped.
\<close>

definition main :: "'r werkzeug \<Rightarrow> 'r \<Rightarrow> string list \<Rightarrow> database \<Rightarrow> cli_result" where
  "main W r argv db0 =
     (case init_db db0 of
        (Inl e, db) \<Rightarrow> crashed e [] [Call_init_db] db
      | (Inr _, db) \<Rightarrow>
          if length argv < 2 then exited usage [Call_init_db] db
          else
            (let cmd = lower (argv ! 1) in
             if cmd = ''init-db'' then
               (case init_db db of
                  (Inl e, db') \<Rightarrow> crashed e [] [Call_init_db, Call_init_db] db'
                | (Inr _, db') \<Rightarrow>
                    exited [''Base de datos inicializada correctamente.'']
                      [Call_init_db, Call_init_db] db')
             else if cmd = ''add-user'' then
               (if length argv < 3 then crashed IndexError [] [Call_init_db] db
                else if length argv < 4 then crashed IndexError [] [Call_init_db] db
                else
                  (let user = argv ! 2; pw = argv ! 3 in
                   case add_user W r user pw db of
                     (Inl e, db') \<Rightarrow>
                       crashed e [] [Call_init_db, Call_add_user user pw] db'
                   | (Inr _, db') \<Rightarrow>
                       exited [''Usuario creado: '' @ user]
                         [Call_init_db, Call_add_user user pw] db'))
             else if cmd = ''validate'' then
               (if length argv < 3 then crashed IndexError [] [Call_init_db] db
                else if length argv < 4 then crashed IndexError [] [Call_init_db] db
                else
                  (let user = argv ! 2; pw = argv ! 3 in
                   case fst (validate_user W user pw db) of
                     Inl e \<Rightarrow> crashed e [] [Call_init_db, Call_validate_user user pw] db
                   | Inr ok \<Rightarrow>
                       exited [if ok then msg_valid else msg_not_valid]
                         [Call_init_db, Call_validate_user user pw] db))
             else if cmd = ''run'' then exited [msg_server] [Call_init_db, Call_app_run] db
             else exited [] [Call_init_db] db))"

subsection \<open>Sample data\<close>

text \<open>
  Two databases on which theorems are applied to concrete inputs: the table as
  \<^verbatim>\<open>init_db\<close> creates it, and the table after \<open>ana\<close> registered with the password
  \<open>Clave123\<close> and the salt 3 of the stand-in library.
\<close>

abbreviation t_empty :: users_table where
  "t_empty \<equiv> \<lparr>rows = [], seq = 0\<rparr>"

abbreviation t_ana :: users_table where
  "t_ana \<equiv>
     \<lparr>rows = [\<lparr>row_id = 1, row_username = ''ana'', row_password_hash = ''sss$Clave123''\<rparr>],
      seq = 1\<rparr>"

section \<open>Properties of the store\<close>

subsection \<open>Lookups, insertions and validation, step by step\<close>

lemma find_absent:
  "username \<notin> set (map row_username rs) \<Longrightarrow> find (\<lambda>row. row_username row = username) rs = None"
  by (induction rs) auto

lemma find_appended:
  "username \<notin> set (map row_username rs) \<Longrightarrow> row_username new = username \<Longrightarrow>
   find (\<lambda>row. row_username row = username) (rs @ [new]) = Some new"
  by (induction rs) auto

lemma find_other_appended:
  "row_username new \<noteq> u \<Longrightarrow>
   find (\<lambda>row. row_username row = u) (rs @ [new]) = find (\<lambda>row. row_username row = u) rs"
  by (induction rs) auto

lemma get_password_hash_absent:
  "username \<notin> set (map row_username (rows t)) \<Longrightarrow> get_password_hash username (Some t) = Inr None"
  by (simp add: get_password_hash_def find_absent)

lemma add_user_fresh:
  "username \<notin> set (map row_username (rows t)) \<Longrightarrow>
   add_user W r username password (Some t) =
     (Inr (),
      Some (t\<lparr>rows := rows t @
                  [\<lparr>row_id = next_id t, row_username = username,
                    row_password_hash = generate_password_hash W r password\<rparr>],
              seq := next_id t\<rparr>))"
  by (simp add: add_user_def)

lemma add_user_present:
  "username \<in> set (map row_username (rows t)) \<Longrightarrow>
   add_user W r username password (Some t) = (Inl IntegrityError, Some t)"
  by (simp add: add_user_def)

lemma add_user_no_table: "add_user W r username password None = (Inl OperationalError, None)"
  by (simp add: add_user_def)

lemma get_after_add:
  "username \<notin> set (map row_username (rows t)) \<Longrightarrow>
   get_password_hash username (snd (add_user W r username password (Some t))) =
     Inr (Some (generate_password_hash W r password))"
  by (simp add: add_user_fresh get_password_hash_def find_appended)

text \<open>Registering one user changes the stored hash of no other user.\<close>

lemma get_other_after_add:
  "u \<noteq> username \<Longrightarrow>
   get_password_hash u (snd (add_user W r username password db)) = get_password_hash u db"
  by (cases db) (auto simp: add_user_def get_password_hash_def find_other_appended)

lemma validate_user_stored:
  "get_password_hash username db = Inr (Some h) \<Longrightarrow> h \<noteq> [] \<Longrightarrow>
   validate_user W username password db = (Inr (check_password_hash W h password), [(h, password)])"
  by (simp add: validate_user_def)

lemma validate_user_absent:
  "get_password_hash username db = Inr None \<Longrightarrow>
   validate_user W username password db = (Inr False, [])"
  by (simp add: validate_user_def)

text \<open>Without the table the lookup raises, and so does \<^verbatim>\<open>validate_user\<close>.\<close>

lemma validate_user_no_table:
  "validate_user W username password None = (Inl OperationalError, [])"
  by (simp add: validate_user_def get_password_hash_def)

subsection \<open>The UNIQUE constraint\<close>

text \<open>
  The usernames of a table are pairwise different: true of the table \<^verbatim>\<open>init_db\<close>
  creates, and kept by \<^verbatim>\<open>add_user\<close>, the only function that writes rows.
\<close>

lemma init_db_distinct: "snd (init_db None) = Some t \<Longrightarrow> distinct (map row_username (rows t))"
  by (auto simp: init_db_def)

lemma add_user_keeps_distinct:
  "distinct (map row_username (rows t)) \<Longrightarrow>
   snd (add_user W r username password (Some t)) = Some t' \<Longrightarrow>
   distinct (map row_username (rows t'))"
  by (auto simp: add_user_def split: if_splits)

lemma add_user_makes_present:
  "fst (add_user W r username password db) = Inr () \<Longrightarrow>
   \<exists>t'. snd (add_user W r username password db) = Some t' \<and>
        username \<in> set (map row_username (rows t'))"
  by (cases db) (auto simp: add_user_def split: if_splits)

lemma distinct_one_row:
  "distinct (map row_username rs) \<Longrightarrow> username \<in> set (map row_username rs) \<Longrightarrow>
   length (filter (\<lambda>row. row_username row = username) rs) = 1"
proof (induction rs)
  case Nil
  then show ?case by simp
next
  case (Cons a rs)
  show ?case
  proof (cases "row_username a = username")
    case True
    with Cons.prems have "username \<notin> set (map row_username rs)" by auto
    then have "filter (\<lambda>row. row_username row = username) rs = []"
      by (auto simp: filter_empty_conv)
    with True show ?thesis by simp
  next
    case False
    with Cons show ?thesis by auto
  qed
qed

subsection \<open>The stand-in library meets both requirements\<close>

lemma dropWhile_salt: "dropWhile (\<lambda>c. c = x) (replicate n x @ ys) = dropWhile (\<lambda>c. c = x) ys"
  by (induction n) auto

lemma sample_hasher_verifies: "verifies_own_hash sample_hasher"
  by (simp add: verifies_own_hash_def sample_hasher_def dropWhile_salt)

lemma sample_hasher_rejects: "rejects_other_passwords sample_hasher"
  by (simp add: rejects_other_passwords_def sample_hasher_def dropWhile_salt)

lemma sample_hash_ana: "generate_password_hash sample_hasher 3 ''Clave123'' = ''sss$Clave123''"
  by (simp add: sample_hasher_def numeral_3_eq_3)

lemma t_ana_registered:
  "snd (add_user sample_hasher 3 ''ana'' ''Clave123'' (Some t_empty)) = Some t_ana"
  by (simp add: add_user_def next_id_def sample_hash_ana)

subsection \<open>The view register\<close>

lemma register_blank:
  "strip (form_get form ''username'') = [] \<or> strip (form_get form ''password'') = [] \<Longrightarrow>
   register W r POST form db = (Inr (REGISTER_HTML msg_invalid), db)"
  by (auto simp: register_def Let_def)

lemma register_duplicate:
  "strip (form_get form ''username'') \<in> set (map row_username (rows t)) \<Longrightarrow>
   strip (form_get form ''username'') \<noteq> [] \<Longrightarrow>
   strip (form_get form ''password'') \<noteq> [] \<Longrightarrow>
   register W r POST form (Some t) = (Inr (REGISTER_HTML msg_exists), Some t)"
  by (simp add: register_def Let_def add_user_present)

text \<open>
  Both views strip the form fields before they call the store, so a registration through
  \<^verbatim>\<open>register\<close> followed by a login through \<^verbatim>\<open>login\<close> with the same form succeeds.
\<close>

lemma register_then_login:
  assumes "verifies_own_hash W"
    and "strip (form_get form ''username'') \<notin> set (map row_username (rows t))"
    and "strip (form_get form ''username'') \<noteq> []"
    and "strip (form_get form ''password'') \<noteq> []"
  shows "fst (register W r POST form (Some t)) = Inr Redirect_home \<and>
         login W POST form (snd (register W r POST form (Some t)))
           = Inr (OK_HTML (strip (form_get form ''username'')))"
proof -
  let ?u = "strip (form_get form ''username'')"
  let ?p = "strip (form_get form ''password'')"
  let ?h = "generate_password_hash W r ?p"
  from assms(1) have h: "?h \<noteq> []" and ok: "check_password_hash W ?h ?p"
    by (simp_all add: verifies_own_hash_def)
  from assms(2,3,4) have reg:
    "register W r POST form (Some t) = (Inr Redirect_home, snd (add_user W r ?u ?p (Some t)))"
    by (simp add: register_def Let_def add_user_fresh)
  from assms(2) have "get_password_hash ?u (snd (add_user W r ?u ?p (Some t))) = Inr (Some ?h)"
    by (rule get_after_add)
  then have "validate_user W ?u ?p (snd (add_user W r ?u ?p (Some t))) =
      (Inr (check_password_hash W ?h ?p), [(?h, ?p)])"
    using h by (rule validate_user_stored)
  with ok reg show ?thesis
    by (simp add: login_def Let_def)
qed

lemma strip_blank_examples: "strip '''' = '''' \<and> strip ''  '' = '''' \<and> strip '' ana '' = ''ana''"
  by (simp add: strip_def isspace_def)

subsection \<open>Initialisation\<close>

lemma init_db_never_fails: "fst (init_db db) = Inr ()"
  by (simp add: init_db_def split: option.split)

lemma init_db_creates: "snd (init_db None) = Some t_empty"
  by (simp add: init_db_def)

lemma init_db_Some: "init_db (Some t) = (Inr (), Some t)"
  by (simp add: init_db_def)

lemma init_db_exists: "\<exists>t. snd (init_db db) = Some t"
  by (cases db) (simp_all add: init_db_def)

text \<open>
  C6. \<^verbatim>\<open>init_db\<close> is idempotent. On a database whose table exists it raises nothing and
  returns the very same table (same rows, same sequence counter); and on any database,
  calling it a second time right after the first changes nothing more.
\<close>

theorem init_db_idempotent:
  "init_db (Some t) = (Inr (), Some t) \<and>
   init_db (snd (init_db db)) = (Inr (), snd (init_db db))"
  by (cases db) (simp_all add: init_db_def)

subsection \<open>Registering, then validating\<close>

text \<open>
  C1. Registering and then authenticating with the same pair succeeds. On a database
  whose table exists and has no row for \<open>username\<close>, \<^verbatim>\<open>add_user(username, password)\<close>
  succeeds, and \<^verbatim>\<open>validate_user(username, password)\<close> on the database it leaves returns
  \<^verbatim>\<open>True\<close>, whatever salt was drawn, provided the library verifies the hashes it
  generates. No condition on the two strings is needed.
\<close>

theorem register_then_authenticate:
  assumes "verifies_own_hash W"
    and "db = Some t"
    and "username \<notin> set (map row_username (rows t))"
  shows "fst (add_user W r username password db) = Inr () \<and>
         fst (validate_user W username password (snd (add_user W r username password db)))
           = Inr True"
proof -
  let ?h = "generate_password_hash W r password"
  let ?db' = "snd (add_user W r username password db)"
  from assms(1) have h: "?h \<noteq> []" and ok: "check_password_hash W ?h password"
    by (simp_all add: verifies_own_hash_def)
  from assms(2,3) have added: "fst (add_user W r username password db) = Inr ()"
    by (simp add: add_user_fresh)
  from assms(2,3) have "get_password_hash username ?db' = Inr (Some ?h)"
    by (simp add: get_after_add)
  then have "validate_user W username password ?db' =
      (Inr (check_password_hash W ?h password), [(?h, password)])"
    using h by (rule validate_user_stored)
  with ok added show ?thesis by simp
qed

text \<open>The theorem at \<open>ana\<close>, \<open>Clave123\<close> and the fresh table.\<close>

theorem register_then_authenticate_witness:
  "verifies_own_hash sample_hasher \<and>
   ''ana'' \<notin> set (map row_username (rows t_empty)) \<and>
   fst (add_user sample_hasher 3 ''ana'' ''Clave123'' (Some t_empty)) = Inr () \<and>
   fst (validate_user sample_hasher ''ana'' ''Clave123''
         (snd (add_user sample_hasher 3 ''ana'' ''Clave123'' (Some t_empty)))) = Inr True"
proof -
  have fresh: "''ana'' \<notin> set (map row_username (rows t_empty))" by simp
  show ?thesis
    using sample_hasher_verifies fresh
      register_then_authenticate [OF sample_hasher_verifies refl fresh, of 3 "''Clave123''"]
    by simp
qed

text \<open>
  C8. A wrong password is rejected. When the hash stored for \<open>username\<close> was generated
  from \<open>password\<close> (with whatever salt), \<^verbatim>\<open>validate_user(username, wrong_password)\<close>
  returns \<^verbatim>\<open>False\<close> for every \<open>wrong_password\<close> different from \<open>password\<close>, provided
  a hash of the library verifies against no password but its own. The function has no
  way to \<^verbatim>\<open>True\<close> other than the library's verdict on the stored hash.
\<close>

theorem wrong_password_rejected:
  assumes "rejects_other_passwords W"
    and "get_password_hash username db = Inr (Some (generate_password_hash W r password))"
    and "wrong_password \<noteq> password"
  shows "fst (validate_user W username wrong_password db) = Inr False"
proof -
  let ?h = "generate_password_hash W r password"
  from assms(1,3) have no: "\<not> check_password_hash W ?h wrong_password"
    by (auto simp: rejects_other_passwords_def)
  show ?thesis
  proof (cases "?h = []")
    case True
    with assms(2) show ?thesis by (simp add: validate_user_def)
  next
    case False
    with assms(2) no show ?thesis by (simp add: validate_user_stored)
  qed
qed

text \<open>The theorem at the table where \<open>ana\<close> registered with \<open>Clave123\<close>.\<close>

theorem wrong_password_rejected_witness:
  "rejects_other_passwords sample_hasher \<and>
   get_password_hash ''ana'' (Some t_ana) =
     Inr (Some (generate_password_hash sample_hasher 3 ''Clave123'')) \<and>
   ''clave123'' \<noteq> ''Clave123'' \<and>
   fst (validate_user sample_hasher ''ana'' ''clave123'' (Some t_ana)) = Inr False"
proof -
  have stored: "get_password_hash ''ana'' (Some t_ana) =
      Inr (Some (generate_password_hash sample_hasher 3 ''Clave123''))"
    by (simp add: get_password_hash_def sample_hash_ana)
  have differ: "''clave123'' \<noteq> ''Clave123''" by simp
  show ?thesis
    using sample_hasher_rejects stored differ
      wrong_password_rejected [OF sample_hasher_rejects stored differ]
    by simp
qed

text \<open>
  C7. Usernames and passwords are matched exactly, letter case included. On a table
  with no row for \<open>ana\<close> and none for \<open>ANA\<close>, \<^verbatim>\<open>add_user("ana", "Clave123")\<close> succeeds;
  after it \<^verbatim>\<open>validate_user("ana", "Clave123")\<close> is \<^verbatim>\<open>True\<close>,
  \<^verbatim>\<open>validate_user("ana", "clave123")\<close> is \<^verbatim>\<open>False\<close> and
  \<^verbatim>\<open>validate_user("ANA", "Clave123")\<close> is \<^verbatim>\<open>False\<close>. The first needs the library
  to verify its own hashes, the second to reject other passwords; the third holds for any
  library, since the lookup finds no row.
\<close>

theorem case_sensitive_example:
  assumes "verifies_own_hash W"
    and "rejects_other_passwords W"
    and "db = Some t"
    and "''ana'' \<notin> set (map row_username (rows t))"
    and "''ANA'' \<notin> set (map row_username (rows t))"
  shows "fst (add_user W r ''ana'' ''Clave123'' db) = Inr () \<and>
         fst (validate_user W ''ana'' ''Clave123'' (snd (add_user W r ''ana'' ''Clave123'' db)))
           = Inr True \<and>
         fst (validate_user W ''ana'' ''clave123'' (snd (add_user W r ''ana'' ''Clave123'' db)))
           = Inr False \<and>
         fst (validate_user W ''ANA'' ''Clave123'' (snd (add_user W r ''ana'' ''Clave123'' db)))
           = Inr False"
proof -
  let ?h = "generate_password_hash W r ''Clave123''"
  let ?db' = "snd (add_user W r ''ana'' ''Clave123'' db)"
  from assms(1) have h: "?h \<noteq> []" and ok: "check_password_hash W ?h ''Clave123''"
    by (simp_all add: verifies_own_hash_def)
  have "''clave123'' \<noteq> ''Clave123''" by simp
  with assms(2) have no: "\<not> check_password_hash W ?h ''clave123''"
    unfolding rejects_other_passwords_def by blast
  from assms(3,4) have added: "fst (add_user W r ''ana'' ''Clave123'' db) = Inr ()"
    by (simp add: add_user_fresh)
  from assms(3,4) have stored: "get_password_hash ''ana'' ?db' = Inr (Some ?h)"
    by (simp add: get_after_add)
  have "''ANA'' \<noteq> ''ana''" by simp
  then have "get_password_hash ''ANA'' ?db' = get_password_hash ''ANA'' db"
    by (rule get_other_after_add)
  with assms(3,5) have upper: "get_password_hash ''ANA'' ?db' = Inr None"
    by (simp add: get_password_hash_absent)
  from stored h ok have 1: "fst (validate_user W ''ana'' ''Clave123'' ?db') = Inr True"
    by (simp add: validate_user_stored)
  from stored h no have 2: "fst (validate_user W ''ana'' ''clave123'' ?db') = Inr False"
    by (simp add: validate_user_stored)
  from upper have 3: "fst (validate_user W ''ANA'' ''Clave123'' ?db') = Inr False"
    by (simp add: validate_user_absent)
  from added 1 2 3 show ?thesis by simp
qed

text \<open>The theorem on the fresh table, with the stand-in library and the salt 3.\<close>

theorem case_sensitive_example_witness:
  "verifies_own_hash sample_hasher \<and> rejects_other_passwords sample_hasher \<and>
   ''ana'' \<notin> set (map row_username (rows t_empty)) \<and>
   ''ANA'' \<notin> set (map row_username (rows t_empty)) \<and>
   fst (add_user sample_hasher 3 ''ana'' ''Clave123'' (Some t_empty)) = Inr () \<and>
   fst (validate_user sample_hasher ''ana'' ''Clave123'' (Some t_ana)) = Inr True \<and>
   fst (validate_user sample_hasher ''ana'' ''clave123'' (Some t_ana)) = Inr False \<and>
   fst (validate_user sample_hasher ''ANA'' ''Clave123'' (Some t_ana)) = Inr False"
proof -
  have lower: "''ana'' \<notin> set (map row_username (rows t_empty))" by simp
  have upper: "''ANA'' \<notin> set (map row_username (rows t_empty))" by simp
  show ?thesis
    using sample_hasher_verifies sample_hasher_rejects lower upper
      case_sensitive_example
        [OF sample_hasher_verifies sample_hasher_rejects refl lower upper, of 3]
    by (simp only: t_ana_registered) simp
qed

subsection \<open>Unknown users\<close>

text \<open>
  C5. An unknown user is a plain \<^verbatim>\<open>False\<close>. On a database whose table exists and has
  no row for \<open>username\<close>, \<^verbatim>\<open>validate_user(username, password)\<close> returns \<^verbatim>\<open>False\<close> and
  raises nothing, for every password and every library.
\<close>

theorem validate_user_unknown_user:
  assumes "db = Some t"
    and "username \<notin> set (map row_username (rows t))"
  shows "fst (validate_user W username password db) = Inr False"
  using assms by (simp add: get_password_hash_absent validate_user_absent)

text \<open>The theorem at a username that the table with \<open>ana\<close> does not hold.\<close>

theorem validate_user_unknown_user_witness:
  "''nadie'' \<notin> set (map row_username (rows t_ana)) \<and>
   fst (validate_user sample_hasher ''nadie'' ''Clave123'' (Some t_ana)) = Inr False"
proof -
  have unknown: "''nadie'' \<notin> set (map row_username (rows t_ana))" by simp
  show ?thesis
    using unknown validate_user_unknown_user [OF refl unknown, of sample_hasher "''Clave123''"]
    by simp
qed

text \<open>
  C2, as the code has it. \<^verbatim>\<open>validate_user\<close> does no hash work for an unknown user: on a
  database whose table exists and has no row for \<open>username\<close> it returns \<^verbatim>\<open>False\<close>
  without any call of \<^verbatim>\<open>check_password_hash\<close> (there is no verification against a
  placeholder hash), while for a username whose stored hash \<open>h\<close> is not empty it makes
  exactly one call, on \<open>h\<close> and the password given.
\<close>

theorem unknown_user_skips_hash_check:
  assumes "db = Some t"
  shows "(username \<notin> set (map row_username (rows t)) \<longrightarrow>
            validate_user W username password db = (Inr False, [])) \<and>
         (get_password_hash username db = Inr (Some h) \<and> h \<noteq> [] \<longrightarrow>
            snd (validate_user W username password db) = [(h, password)])"
  using assms by (simp add: get_password_hash_absent validate_user_absent validate_user_stored)

text \<open>The theorem at an unknown and at a registered username of the table with \<open>ana\<close>.\<close>

theorem unknown_user_skips_hash_check_witness:
  "''nadie'' \<notin> set (map row_username (rows t_ana)) \<and>
   validate_user sample_hasher ''nadie'' ''Clave123'' (Some t_ana) = (Inr False, []) \<and>
   get_password_hash ''ana'' (Some t_ana) = Inr (Some ''sss$Clave123'') \<and>
   snd (validate_user sample_hasher ''ana'' ''Clave123'' (Some t_ana)) =
     [(''sss$Clave123'', ''Clave123'')]"
proof -
  have unknown: "''nadie'' \<notin> set (map row_username (rows t_ana))" by simp
  have stored: "get_password_hash ''ana'' (Some t_ana) = Inr (Some ''sss$Clave123'')"
    by (simp add: get_password_hash_def)
  show ?thesis
    using unknown stored
      unknown_user_skips_hash_check
        [OF refl, of "''nadie''" t_ana sample_hasher "''Clave123''" "''sss$Clave123''"]
      unknown_user_skips_hash_check
        [OF refl, of "''ana''" t_ana sample_hasher "''Clave123''" "''sss$Clave123''"]
    by simp
qed

text \<open>
  The claim C2 as the specification words it fails: for the unknown user \<open>nadie\<close> the
  number of hash verifications is not one (it is zero), while for the registered user
  \<open>ana\<close> it is one.
\<close>

theorem dummy_hash_check_counterexample:
  "length (snd (validate_user sample_hasher ''nadie'' ''Clave123'' (Some t_ana))) \<noteq> 1 \<and>
   length (snd (validate_user sample_hasher ''ana'' ''Clave123'' (Some t_ana))) = 1"
  by (simp add: validate_user_def get_password_hash_def)

subsection \<open>Registering a username twice\<close>

text \<open>
  C3. A second registration of a username fails and writes nothing. On a table with
  pairwise different usernames that has a row for \<open>username\<close>,
  \<^verbatim>\<open>add_user(username, password)\<close> raises \<^verbatim>\<open>IntegrityError\<close> and leaves the database as
  it was, for every password and salt: the stored hash is the one stored before, and the
  table holds exactly one row for \<open>username\<close>. The view \<^verbatim>\<open>register\<close>, called with a form
  whose stripped username is \<open>username\<close> and whose stripped password is not empty, answers
  with the message that the user exists and leaves the database as it was.
\<close>

theorem duplicate_user_rejected:
  assumes "db = Some t"
    and "distinct (map row_username (rows t))"
    and "username \<in> set (map row_username (rows t))"
  shows "add_user W r username password db = (Inl IntegrityError, db) \<and>
         get_password_hash username (snd (add_user W r username password db))
           = get_password_hash username db \<and>
         length (rows_for username (snd (add_user W r username password db))) = 1 \<and>
         (strip (form_get form ''username'') = username \<and> username \<noteq> [] \<and>
          strip (form_get form ''password'') \<noteq> [] \<longrightarrow>
            register W r POST form db = (Inr (REGISTER_HTML msg_exists), db))"
  using assms
  by (auto simp: add_user_present rows_for_def distinct_one_row register_duplicate)

text \<open>
  The theorem on the table that the first registration of \<open>ana\<close> left: the second
  attempt, with another password and salt, fails, and the hash stored is still the first.
\<close>

theorem duplicate_user_rejected_witness:
  "snd (add_user sample_hasher 3 ''ana'' ''Clave123'' (Some t_empty)) = Some t_ana \<and>
   distinct (map row_username (rows t_ana)) \<and>
   ''ana'' \<in> set (map row_username (rows t_ana)) \<and>
   add_user sample_hasher 5 ''ana'' ''otra'' (Some t_ana) = (Inl IntegrityError, Some t_ana) \<and>
   get_password_hash ''ana'' (snd (add_user sample_hasher 5 ''ana'' ''otra'' (Some t_ana)))
     = Inr (Some ''sss$Clave123'') \<and>
   length (rows_for ''ana'' (snd (add_user sample_hasher 5 ''ana'' ''otra'' (Some t_ana)))) = 1 \<and>
   register sample_hasher 5 POST [''username'' \<mapsto> '' ana '', ''password'' \<mapsto> ''otra'']
     (Some t_ana) = (Inr (REGISTER_HTML msg_exists), Some t_ana)"
proof -
  let ?form = "[''username'' \<mapsto> '' ana '', ''password'' \<mapsto> ''otra'']"
  let ?db' = "snd (add_user sample_hasher 5 ''ana'' ''otra'' (Some t_ana))"
  have unique: "distinct (map row_username (rows t_ana))" by simp
  have present: "''ana'' \<in> set (map row_username (rows t_ana))" by simp
  have stored: "get_password_hash ''ana'' (Some t_ana) = Inr (Some ''sss$Clave123'')"
    by (simp add: get_password_hash_def)
  have form:
    "strip (form_get ?form ''username'') = ''ana'' \<and> ''ana'' \<noteq> [] \<and>
     strip (form_get ?form ''password'') \<noteq> []"
    by (simp add: form_get_def strip_def isspace_def)
  note second =
    duplicate_user_rejected
      [OF refl unique present, of sample_hasher 5 "''otra''" ?form]
  from second have fails:
    "add_user sample_hasher 5 ''ana'' ''otra'' (Some t_ana) = (Inl IntegrityError, Some t_ana)"
    by (rule conjunct1)
  from second have "get_password_hash ''ana'' ?db' = get_password_hash ''ana'' (Some t_ana)"
    by blast
  then have hash: "get_password_hash ''ana'' ?db' = Inr (Some ''sss$Clave123'')"
    using stored by (rule trans)
  from second have one: "length (rows_for ''ana'' ?db') = 1"
    by blast
  from second form have view:
    "register sample_hasher 5 POST ?form (Some t_ana)
       = (Inr (REGISTER_HTML msg_exists), Some t_ana)"
    by blast
  from t_ana_registered unique present fails hash one view show ?thesis
    by blast
qed

section \<open>Properties of the command line\<close>

subsection \<open>What each subcommand does\<close>

lemma lower_init_db: "lower ''init-db'' = ''init-db''"
  by code_simp

lemma lower_add_user: "lower ''add-user'' = ''add-user''"
  by code_simp

lemma lower_validate: "lower ''validate'' = ''validate''"
  by code_simp

lemma main_no_subcommand:
  "length argv < 2 \<Longrightarrow> main W r argv db = exited usage [Call_init_db] (snd (init_db db))"
  by (cases db) (simp_all add: main_def init_db_def)

lemma main_init_db:
  "lower cmd = ''init-db'' \<Longrightarrow>
   main W r (prog # cmd # rest) db =
     exited [''Base de datos inicializada correctamente.''] [Call_init_db, Call_init_db]
       (snd (init_db (snd (init_db db))))"
  by (cases db) (simp_all add: main_def init_db_def)

lemma main_add_user:
  "lower cmd = ''add-user'' \<Longrightarrow>
   main W r [prog, cmd, user, pw] db =
     (case add_user W r user pw (snd (init_db db)) of
        (Inl e, db') \<Rightarrow> crashed e [] [Call_init_db, Call_add_user user pw] db'
      | (Inr _, db') \<Rightarrow>
          exited [''Usuario creado: '' @ user] [Call_init_db, Call_add_user user pw] db')"
  by (cases db) (simp_all add: main_def init_db_def)

lemma main_validate:
  "lower cmd = ''validate'' \<Longrightarrow>
   main W r [prog, cmd, user, pw] db =
     (case fst (validate_user W user pw (snd (init_db db))) of
        Inl e \<Rightarrow> crashed e [] [Call_init_db, Call_validate_user user pw] (snd (init_db db))
      | Inr ok \<Rightarrow>
          exited [if ok then msg_valid else msg_not_valid]
            [Call_init_db, Call_validate_user user pw] (snd (init_db db)))"
  by (cases db) (simp_all add: main_def init_db_def split: sum.split)

text \<open>The process ends with status 1 exactly when an exception ended it.\<close>

lemma main_exit_status:
  "exit_status (main W r argv db) = (if uncaught (main W r argv db) = None then 0 else 1)"
  by (cases db)
    (auto simp: main_def init_db_def exited_def crashed_def Let_def
          split: prod.split sum.split)

text \<open>
  \<^verbatim>\<open>add-user\<close> with a username that is registered: the \<^verbatim>\<open>IntegrityError\<close> of
  \<^verbatim>\<open>add_user\<close> is not caught, nothing is printed and the status is 1.
\<close>

lemma main_add_user_duplicate:
  assumes "lower cmd = ''add-user''"
    and "user \<in> set (map row_username (rows t))"
  shows "main W r [prog, cmd, user, pw] (Some t) =
           crashed IntegrityError [] [Call_init_db, Call_add_user user pw] (Some t)"
  using assms by (simp add: main_add_user init_db_Some add_user_present)

text \<open>\<^verbatim>\<open>validate\<close> with an unknown user prints the negative message and ends with status 0.\<close>

lemma main_validate_unknown:
  assumes "lower cmd = ''validate''"
    and "user \<notin> set (map row_username (rows t))"
  shows "main W r [prog, cmd, user, pw] (Some t) =
           exited [msg_not_valid] [Call_init_db, Call_validate_user user pw] (Some t)"
  using assms
  by (simp add: main_validate init_db_Some get_password_hash_absent validate_user_absent)

subsection \<open>Initialisation comes first\<close>

lemma main_calls_init_db_first: "\<exists>cs. calls (main W r argv db) = Call_init_db # cs"
  by (cases db)
    (auto simp: main_def init_db_def exited_def crashed_def Let_def
          split: prod.split sum.split)

lemma main_leaves_table: "final_db (main W r argv db) \<noteq> None"
proof -
  obtain t where "snd (init_db db) = Some t"
    using init_db_exists by blast
  then have i: "init_db db = (Inr (), Some t)"
    by (cases db) (auto simp: init_db_def)
  have a: "\<And>u p e d. add_user W r u p (Some t) = (e, d) \<Longrightarrow> d \<noteq> None"
    by (auto simp: add_user_def split: if_splits)
  show ?thesis
    unfolding main_def i
    by (auto simp: init_db_Some exited_def crashed_def Let_def
          split: prod.split sum.split dest: a)
qed

lemma main_after_init_db: "main W r argv (snd (init_db db)) = main W r argv db"
  by (cases db) (simp_all add: main_def init_db_def)

text \<open>
  C10. Every run of the script calls \<^verbatim>\<open>init_db\<close> before it looks at its arguments. For
  every argument list (empty, without subcommand, with an unknown one) and every database:
  the first call of the run is \<^verbatim>\<open>init_db\<close>; the table exists when the run ends; and the
  run does the same as on a database that was initialised beforehand. With the
  subcommand \<^verbatim>\<open>init-db\<close> the calls are \<^verbatim>\<open>init_db\<close> twice. On a database without table,
  \<^verbatim>\<open>add-user user pw\<close> creates the table and the row and ends with status 0, and
  \<^verbatim>\<open>validate user pw\<close> prints the negative message and ends with status 0.
\<close>

theorem main_initialises_first:
  "(\<exists>cs. calls (main W r argv db) = Call_init_db # cs) \<and>
   final_db (main W r argv db) \<noteq> None \<and>
   main W r argv (snd (init_db db)) = main W r argv db \<and>
   (lower cmd = ''init-db'' \<longrightarrow>
      calls (main W r (prog # cmd # rest) db) = [Call_init_db, Call_init_db]) \<and>
   (lower cmd = ''add-user'' \<longrightarrow>
      main W r [prog, cmd, user, pw] None =
        exited [''Usuario creado: '' @ user] [Call_init_db, Call_add_user user pw]
          (Some \<lparr>rows = [\<lparr>row_id = 1, row_username = user,
                            row_password_hash = generate_password_hash W r pw\<rparr>],
                 seq = 1\<rparr>)) \<and>
   (lower cmd = ''validate'' \<longrightarrow>
      main W r [prog, cmd, user, pw] None =
        exited [msg_not_valid] [Call_init_db, Call_validate_user user pw] (Some t_empty))"
proof -
  have 1: "\<exists>cs. calls (main W r argv db) = Call_init_db # cs"
    by (rule main_calls_init_db_first)
  have 2: "final_db (main W r argv db) \<noteq> None"
    by (rule main_leaves_table)
  have 3: "main W r argv (snd (init_db db)) = main W r argv db"
    by (rule main_after_init_db)
  have 4: "lower cmd = ''init-db'' \<longrightarrow>
      calls (main W r (prog # cmd # rest) db) = [Call_init_db, Call_init_db]"
    by (simp add: main_init_db exited_def)
  have 5: "lower cmd = ''add-user'' \<longrightarrow>
      main W r [prog, cmd, user, pw] None =
        exited [''Usuario creado: '' @ user] [Call_init_db, Call_add_user user pw]
          (Some \<lparr>rows = [\<lparr>row_id = 1, row_username = user,
                            row_password_hash = generate_password_hash W r pw\<rparr>],
                 seq = 1\<rparr>)"
    by (simp add: main_add_user init_db_creates add_user_fresh next_id_def)
  have 6: "lower cmd = ''validate'' \<longrightarrow>
      main W r [prog, cmd, user, pw] None =
        exited [msg_not_valid] [Call_init_db, Call_validate_user user pw] (Some t_empty)"
    by (simp add: main_validate init_db_creates get_password_hash_absent validate_user_absent)
  from 1 2 3 4 5 6 show ?thesis by blast
qed

text \<open>
  The theorem at the three subcommands, each on a database without table, and at a run
  without subcommand.
\<close>

theorem main_initialises_first_witness:
  "lower ''init-db'' = ''init-db'' \<and> lower ''add-user'' = ''add-user'' \<and>
   lower ''validate'' = ''validate'' \<and>
   calls (main sample_hasher 3 [''aplicacion_item3.py'', ''init-db''] None)
     = [Call_init_db, Call_init_db] \<and>
   main sample_hasher 3 [''aplicacion_item3.py'', ''add-user'', ''ana'', ''Clave123''] None =
     exited [''Usuario creado: ana''] [Call_init_db, Call_add_user ''ana'' ''Clave123'']
       (Some t_ana) \<and>
   main sample_hasher 3 [''aplicacion_item3.py'', ''validate'', ''ana'', ''Clave123''] None =
     exited [msg_not_valid] [Call_init_db, Call_validate_user ''ana'' ''Clave123'']
       (Some t_empty) \<and>
   (\<exists>cs. calls (main sample_hasher 3 [''aplicacion_item3.py''] None) = Call_init_db # cs) \<and>
   final_db (main sample_hasher 3 [''aplicacion_item3.py''] None) \<noteq> None"
  using lower_init_db lower_add_user lower_validate sample_hash_ana
    main_initialises_first
      [of sample_hasher 3 "[''aplicacion_item3.py'']" None "''init-db''"
        "''aplicacion_item3.py''" "[]"]
    main_initialises_first
      [of sample_hasher 3 "[''aplicacion_item3.py'']" None "''add-user''"
        "''aplicacion_item3.py''" "[]" "''ana''" "''Clave123''"]
    main_initialises_first
      [of sample_hasher 3 "[''aplicacion_item3.py'']" None "''validate''"
        "''aplicacion_item3.py''" "[]" "''ana''" "''Clave123''"]
  by simp

subsection \<open>Exit status and validation of the arguments\<close>

text \<open>
  C9, at the input where the code departs from it. \<^verbatim>\<open>add-user ana Clave123\<close> on a
  database where \<open>ana\<close> is registered has all its arguments, and yet the run ends with
  status 1 on the uncaught \<^verbatim>\<open>IntegrityError\<close>, having printed nothing.
\<close>

theorem cli_add_user_duplicate_exit_status:
  "exit_status (main sample_hasher 5
      [''aplicacion_item3.py'', ''add-user'', ''ana'', ''Clave123''] (Some t_ana)) = 1 \<and>
   uncaught (main sample_hasher 5
      [''aplicacion_item3.py'', ''add-user'', ''ana'', ''Clave123''] (Some t_ana))
     = Some IntegrityError \<and>
   stdout (main sample_hasher 5
      [''aplicacion_item3.py'', ''add-user'', ''ana'', ''Clave123''] (Some t_ana)) = []"
  by (simp add: main_add_user_duplicate [OF lower_add_user] crashed_def)

text \<open>
  C4, at the inputs where the code departs from it. The command line hands its arguments
  to \<^verbatim>\<open>add_user\<close> as they are, and \<^verbatim>\<open>add_user\<close> checks neither: \<^verbatim>\<open>add-user "" x\<close> and
  \<^verbatim>\<open>add-user x ""\<close>, each on a database without table, end with status 0 and leave a
  row with an empty username, respectively with the hash of the empty password. (The view
  \<^verbatim>\<open>register\<close> does refuse both, see \<open>register_blank\<close>.)
\<close>

theorem cli_add_user_blank_creates_row:
  "main sample_hasher 5 [''aplicacion_item3.py'', ''add-user'', '''', ''x''] None =
     exited [''Usuario creado: ''] [Call_init_db, Call_add_user '''' ''x'']
       (Some \<lparr>rows = [\<lparr>row_id = 1, row_username = '''', row_password_hash = ''sssss$x''\<rparr>],
              seq = 1\<rparr>) \<and>
   main sample_hasher 5 [''aplicacion_item3.py'', ''add-user'', ''x'', ''''] None =
     exited [''Usuario creado: x''] [Call_init_db, Call_add_user ''x'' '''']
       (Some \<lparr>rows = [\<lparr>row_id = 1, row_username = ''x'', row_password_hash = ''sssss$''\<rparr>],
              seq = 1\<rparr>)"
  by (simp add: main_add_user [OF lower_add_user] init_db_creates add_user_fresh next_id_def
        sample_hasher_def eval_nat_numeral)

end
